theory Spec2Isabelle
  imports Complex_Main
begin

section \<open>Shared vocabulary: player commands and user-interface effects\<close>

text \<open>
  The application is three React Native screens (selection, trim, playback) and one
  slider widget. Handlers are modelled as pure functions from the state a render closed
  over to the state after the handler's \<open>set...\<close> calls have been committed, together
  with the list of effects the handler fired, in the order the source fires them.

  Times are JavaScript numbers holding milliseconds. On the two screens every number is
  finite (the selection screen passes \<open>video.duration || 10000\<close>), and a number is the
  \<^typ>\<open>real\<close> it denotes. Comparisons, \<open>Math.max\<close> and \<open>Math.min\<close> are exact on doubles;
  the sums and differences the trim screen computes are rounded to double precision
  (\<open>to_double\<close> below). The playback screen only compares. The slider widget, where a
  division by \<open>duration\<close> can leave the finite numbers, has its own number type.
\<close>

text \<open>The methods of the expo-av \<open>Video\<close> reference that the screens call.\<close>

datatype player_cmd =
    PauseAsync
  | PlayAsync
  | SetPositionAsync real
  | SetRateAsync real bool

text \<open>
  The parameters that \<open>navigation.navigate('VideoPlayer', {...})\<close> carries, which the
  playback screen reads back from \<open>route.params\<close>.
\<close>

record player_route =
  r_videoUri :: "string option"
  r_startTime :: real
  r_endTime :: real
  r_originalDuration :: real
  r_trimmedDuration :: real

datatype ui_effect =
    ShowAlert string string
  | Player player_cmd
  | NavigateTo string player_route

text \<open>JavaScript truthiness of a string that may be \<open>undefined\<close>: \<open>!videoUri\<close> holds for
  \<open>undefined\<close> and for the empty string.\<close>

definition truthy :: "string option \<Rightarrow> bool" where
  "truthy u = (case u of None \<Rightarrow> False | Some v \<Rightarrow> v \<noteq> [])"

text \<open>The route a handler navigated to, if it navigated at all.\<close>

fun navigated :: "ui_effect list \<Rightarrow> (string \<times> player_route) option" where
  "navigated [] = None"
| "navigated (NavigateTo n r # es) = Some (n, r)"
| "navigated (e # es) = navigated es"

fun alerts :: "ui_effect list \<Rightarrow> (string \<times> string) list" where
  "alerts [] = []"
| "alerts (ShowAlert t m # es) = (t, m) # alerts es"
| "alerts (e # es) = alerts es"

fun commands :: "ui_effect list \<Rightarrow> player_cmd list" where
  "commands [] = []"
| "commands (Player c # es) = c # commands es"
| "commands (e # es) = commands es"


section \<open>Utility functions (videoUtils)\<close>

definition validateTimeRange :: "real \<Rightarrow> real \<Rightarrow> bool" where
  "validateTimeRange startTime endTime = (startTime < endTime \<and> startTime \<ge> 0 \<and> endTime > 0)"

record trim_points =
  tp_startTime :: real
  tp_endTime :: real
  tp_duration :: real

definition getSuggestedTrimPoints :: "real \<Rightarrow> trim_points" where
  "getSuggestedTrimPoints videoDuration =
     (let maxTrimDuration = 30000;
          suggestedDuration = min videoDuration maxTrimDuration
      in \<lparr>tp_startTime = 0, tp_endTime = suggestedDuration, tp_duration = suggestedDuration\<rparr>)"


section \<open>The range slider widget (CustomTimelineSlider)\<close>

text \<open>
  The widget divides by its \<open>duration\<close> property, so its numbers are modelled with the
  values a JavaScript division can leave the reals for: the two infinities and \<open>NaN\<close>.
  Finite numbers are reals (rounding is not modelled), and zero has no sign: a division
  of a non-zero number by zero gives the infinity of the dividend's sign.
\<close>

datatype jsnum = Num real | PosInf | NegInf | NaN

fun js_neg :: "jsnum \<Rightarrow> jsnum" where
  "js_neg (Num a) = Num (- a)"
| "js_neg PosInf = NegInf"
| "js_neg NegInf = PosInf"
| "js_neg NaN = NaN"

fun js_add :: "jsnum \<Rightarrow> jsnum \<Rightarrow> jsnum" where
  "js_add NaN _ = NaN"
| "js_add _ NaN = NaN"
| "js_add (Num a) (Num b) = Num (a + b)"
| "js_add PosInf NegInf = NaN"
| "js_add NegInf PosInf = NaN"
| "js_add PosInf _ = PosInf"
| "js_add NegInf _ = NegInf"
| "js_add (Num a) b = b"

definition js_sub :: "jsnum \<Rightarrow> jsnum \<Rightarrow> jsnum" where
  "js_sub a b = js_add a (js_neg b)"

text \<open>An infinity times, or divided by, a finite number of the given sign.\<close>

definition scale_inf :: "jsnum \<Rightarrow> real \<Rightarrow> jsnum" where
  "scale_inf i b = (if b = 0 then NaN else if b > 0 then i else js_neg i)"

fun js_mul :: "jsnum \<Rightarrow> jsnum \<Rightarrow> jsnum" where
  "js_mul NaN _ = NaN"
| "js_mul _ NaN = NaN"
| "js_mul (Num a) (Num b) = Num (a * b)"
| "js_mul (Num a) i = scale_inf i a"
| "js_mul i (Num b) = scale_inf i b"
| "js_mul PosInf i = i"
| "js_mul NegInf i = js_neg i"

fun js_div :: "jsnum \<Rightarrow> jsnum \<Rightarrow> jsnum" where
  "js_div NaN _ = NaN"
| "js_div _ NaN = NaN"
| "js_div (Num a) (Num b) =
     (if b \<noteq> 0 then Num (a / b)
      else if a = 0 then NaN else if a > 0 then PosInf else NegInf)"
| "js_div (Num a) i = Num 0"
| "js_div i (Num b) = (if b \<ge> 0 then i else js_neg i)"
| "js_div i j = NaN"

text \<open>\<open><=\<close> on JavaScript numbers: false as soon as one side is \<open>NaN\<close>.\<close>

fun js_le :: "jsnum \<Rightarrow> jsnum \<Rightarrow> bool" where
  "js_le NaN _ = False"
| "js_le _ NaN = False"
| "js_le (Num a) (Num b) = (a \<le> b)"
| "js_le NegInf _ = True"
| "js_le _ PosInf = True"
| "js_le _ _ = False"

text \<open>\<open>Math.max\<close> and \<open>Math.min\<close> of two arguments: \<open>NaN\<close> if either is.\<close>

definition js_max :: "jsnum \<Rightarrow> jsnum \<Rightarrow> jsnum" where
  "js_max a b = (if a = NaN \<or> b = NaN then NaN else if js_le a b then b else a)"

definition js_min :: "jsnum \<Rightarrow> jsnum \<Rightarrow> jsnum" where
  "js_min a b = (if a = NaN \<or> b = NaN then NaN else if js_le a b then a else b)"

text \<open>The module constant \<open>SLIDER_WIDTH = screenWidth - 40\<close>, of the window's width.\<close>

definition SLIDER_WIDTH :: "jsnum \<Rightarrow> jsnum" where
  "SLIDER_WIDTH screenWidth = js_sub screenWidth (Num 40)"

text \<open>The three pixel positions the widget computes on every render; \<open>W\<close> is
  \<open>SLIDER_WIDTH\<close>.\<close>

definition startPosition :: "jsnum \<Rightarrow> jsnum \<Rightarrow> jsnum \<Rightarrow> jsnum" where
  "startPosition W duration startTime = js_mul (js_div startTime duration) W"

definition endPosition :: "jsnum \<Rightarrow> jsnum \<Rightarrow> jsnum \<Rightarrow> jsnum" where
  "endPosition W duration endTime = js_mul (js_div endTime duration) W"

definition currentPosition :: "jsnum \<Rightarrow> jsnum \<Rightarrow> jsnum \<Rightarrow> jsnum" where
  "currentPosition W duration currentTime = js_mul (js_div currentTime duration) W"

text \<open>The conversion of a pixel position to a time, which \<open>onPanResponderMove\<close> writes out
  in both of its branches: \<open>(clampedPosition / SLIDER_WIDTH) * duration\<close>.\<close>

definition positionToTime :: "jsnum \<Rightarrow> jsnum \<Rightarrow> jsnum \<Rightarrow> jsnum" where
  "positionToTime W duration clampedPosition = js_mul (js_div clampedPosition W) duration"

text \<open>The callback a gesture invokes, with its argument.\<close>

datatype slider_callback = OnStartTimeChange jsnum | OnEndTimeChange jsnum

text \<open>The pan responder of a handle (\<open>isStart\<close> tells which): both \<open>ShouldSet\<close> callbacks
  are the constant \<open>true\<close>, and a move computes a time and passes it to the callback.\<close>

definition onStartShouldSetPanResponder :: "jsnum \<Rightarrow> bool \<Rightarrow> bool" where
  "onStartShouldSetPanResponder duration isStart = True"

definition onMoveShouldSetPanResponder :: "jsnum \<Rightarrow> bool \<Rightarrow> bool" where
  "onMoveShouldSetPanResponder duration isStart = True"

definition onPanResponderMove ::
  "jsnum \<Rightarrow> jsnum \<Rightarrow> jsnum \<Rightarrow> jsnum \<Rightarrow> bool \<Rightarrow> jsnum \<Rightarrow> slider_callback" where
  "onPanResponderMove W duration startTime endTime isStart dx =
     (let currentPos = (if isStart then startPosition W duration startTime
                        else endPosition W duration endTime);
          newPosition = js_add currentPos dx
      in if isStart then
           let clampedPosition =
                 js_max (Num 0)
                   (js_min (js_sub (endPosition W duration endTime) (Num 30)) newPosition);
               newTime = positionToTime W duration clampedPosition
           in OnStartTimeChange (js_max (Num 0) newTime)
         else
           let clampedPosition =
                 js_max (js_add (startPosition W duration startTime) (Num 30))
                   (js_min W newPosition);
               newTime = positionToTime W duration clampedPosition
           in OnEndTimeChange (js_min duration newTime))"

text \<open>\<open>renderTimeMarkers\<close>: for \<open>i = 0, ..., 6\<close> the pixel position of the tick and the time
  it is labelled with.\<close>

definition renderTimeMarkers :: "jsnum \<Rightarrow> jsnum \<Rightarrow> (jsnum \<times> jsnum) list" where
  "renderTimeMarkers W duration =
     (let markerCount = 6
      in map (\<lambda>i. (js_mul (js_div (Num (real i)) (Num markerCount)) W,
                   js_mul (js_div (Num (real i)) (Num markerCount)) duration))
           [0 ..< 7])"


section \<open>Double-precision addition and subtraction\<close>

text \<open>
  A JavaScript \<open>+\<close> or \<open>-\<close> returns the double nearest to the exact result, a tie going
  to the even significand. \<open>binade x\<close> is the exponent \<open>e\<close> with \<open>2^e <= |x| < 2^(e+1)\<close>,
  found by a search from 0 that 2200 steps more than suffice for; the doubles of that
  exponent are the multiples of \<open>2^(e-52)\<close>, and those below \<open>2^(-1022)\<close> the multiples of
  \<open>2^(-1074)\<close>. Overflow to infinity (from \<open>2^1024\<close> on) is not modelled: the numbers
  here are times in milliseconds.
\<close>

definition pow2 :: "int \<Rightarrow> real" where
  "pow2 e = (if 0 \<le> e then 2 ^ nat e else 1 / 2 ^ nat (- e))"

fun binade_from :: "nat \<Rightarrow> int \<Rightarrow> real \<Rightarrow> int" where
  "binade_from 0 e x = e"
| "binade_from (Suc n) e x =
     (if pow2 (e + 1) \<le> x then binade_from n (e + 1) x
      else if x < pow2 e then binade_from n (e - 1) x
      else e)"

definition binade :: "real \<Rightarrow> int" where
  "binade x = binade_from 2200 0 \<bar>x\<bar>"

definition round_half_even :: "real \<Rightarrow> int" where
  "round_half_even y =
     (let f = \<lfloor>y\<rfloor>; r = y - of_int f
      in if r < 1 / 2 then f else if r > 1 / 2 then f + 1 else if even f then f else f + 1)"

definition to_double :: "real \<Rightarrow> real" where
  "to_double x =
     (if x = 0 then 0
      else let q = pow2 (max (binade x) (- 1022) - 52)
           in of_int (round_half_even (x / q)) * q)"

definition double_add :: "real \<Rightarrow> real \<Rightarrow> real" where
  "double_add a b = to_double (a + b)"

definition double_sub :: "real \<Rightarrow> real \<Rightarrow> real" where
  "double_sub a b = to_double (a - b)"


section \<open>The trim screen (VideoTrimmerScreen)\<close>

text \<open>
  The screen's \<open>useState\<close> cells, and whether \<open>videoRef.current\<close> is attached. The route
  parameters \<open>videoUri\<close> and \<open>videoDuration\<close> are arguments of the handlers that read them.
\<close>

record trimmer_state =
  startTime :: real
  endTime :: real
  currentTime :: real
  isPlaying :: bool
  isLoading :: bool
  videoRef :: bool

text \<open>The initial values of the \<open>useState\<close> calls.\<close>

definition trimmer_mount :: trimmer_state where
  "trimmer_mount =
     \<lparr>startTime = 0, endTime = 0, currentTime = 0, isPlaying = False, isLoading = True,
      videoRef = False\<rparr>"

text \<open>
  The first \<open>useEffect\<close>: without a \<open>videoUri\<close> it alerts and returns; otherwise a truthy
  \<open>videoDuration\<close> (a number other than 0) sets the end point, and loading ends.
\<close>

definition trimmer_init_effect ::
  "string option \<Rightarrow> real \<Rightarrow> trimmer_state \<Rightarrow> trimmer_state \<times> ui_effect list" where
  "trimmer_init_effect videoUri videoDuration s =
     (if \<not> truthy videoUri then (s, [ShowAlert ''Error'' ''No video selected''])
      else
        let s1 = (if videoDuration \<noteq> 0
                  then (let initialEndTime = min videoDuration 30000
                        in s\<lparr>endTime := initialEndTime\<rparr>)
                  else s)
        in (s1\<lparr>isLoading := False\<rparr>, []))"

text \<open>
  The screen as it stands once it has mounted, the effect has run and the screen has
  rendered again. \<open>if (isLoading || !videoUri)\<close> the render returns the loading view;
  otherwise it renders the \<open>Video\<close> element, which attaches the ref, the buttons and the
  slider.
\<close>

definition trimmer_loaded :: "string option \<Rightarrow> real \<Rightarrow> trimmer_state" where
  "trimmer_loaded videoUri videoDuration =
     (let s = fst (trimmer_init_effect videoUri videoDuration trimmer_mount)
      in s\<lparr>videoRef := \<not> (isLoading s \<or> \<not> truthy videoUri)\<rparr>)"

definition handleStartTimeChange ::
  "trimmer_state \<Rightarrow> real \<Rightarrow> trimmer_state \<times> ui_effect list" where
  "handleStartTimeChange s newStartTime =
     (let clampedStartTime = max 0 (min (double_sub (endTime s) 1000) newStartTime)
      in (s\<lparr>startTime := clampedStartTime\<rparr>,
          if currentTime s < clampedStartTime \<and> videoRef s
          then [Player (SetPositionAsync clampedStartTime)] else []))"

definition handleEndTimeChange ::
  "real \<Rightarrow> trimmer_state \<Rightarrow> real \<Rightarrow> trimmer_state \<times> ui_effect list" where
  "handleEndTimeChange videoDuration s newEndTime =
     (let clampedEndTime =
            max (double_add (startTime s) 1000) (min videoDuration newEndTime)
      in (s\<lparr>endTime := clampedEndTime\<rparr>,
          if currentTime s > clampedEndTime \<and> videoRef s
          then [Player (SetPositionAsync clampedEndTime)] else []))"

definition handleProceedToPlayer ::
  "string option \<Rightarrow> real \<Rightarrow> trimmer_state \<Rightarrow> trimmer_state \<times> ui_effect list" where
  "handleProceedToPlayer videoUri videoDuration s =
     (if \<not> truthy videoUri then (s, [ShowAlert ''Error'' ''No video to trim''])
      else if startTime s \<ge> endTime s
      then (s, [ShowAlert ''Error'' ''Start time must be less than end time''])
      else
        let trimmedDuration = double_sub (endTime s) (startTime s)
        in if trimmedDuration < 1000
           then (s, [ShowAlert ''Error'' ''Trimmed duration must be at least 1 second''])
           else
             let pausing = (videoRef s \<and> isPlaying s);
                 s1 = (if pausing then s\<lparr>isPlaying := False\<rparr> else s)
             in (s1,
                 (if pausing then [Player PauseAsync] else []) @
                 [NavigateTo ''VideoPlayer''
                    \<lparr>r_videoUri = videoUri, r_startTime = startTime s, r_endTime = endTime s,
                     r_originalDuration = videoDuration, r_trimmedDuration = trimmedDuration\<rparr>]))"

text \<open>
  The two callbacks the slider is given, as one update type, and a drag sequence as a
  list of updates. \<open>trim_run\<close> is the state after the whole sequence.
\<close>

datatype trim_update = StartTimeChange real | EndTimeChange real

fun apply_update :: "real \<Rightarrow> trimmer_state \<Rightarrow> trim_update \<Rightarrow> trimmer_state" where
  "apply_update videoDuration s (StartTimeChange t) = fst (handleStartTimeChange s t)"
| "apply_update videoDuration s (EndTimeChange t) = fst (handleEndTimeChange videoDuration s t)"

fun trim_run :: "real \<Rightarrow> trimmer_state \<Rightarrow> trim_update list \<Rightarrow> trimmer_state" where
  "trim_run videoDuration s [] = s"
| "trim_run videoDuration s (u # us) = trim_run videoDuration (apply_update videoDuration s u) us"


section \<open>The playback screen (VideoPlayerScreen)\<close>

text \<open>
  A status notification of the player. \<open>positionMillis\<close> may be absent, which the handler
  reads as \<open>status.positionMillis || 0\<close>; \<open>isPlaying\<close> is only ever tested for truthiness
  (\<open>status.isPlaying || false\<close>), so it is a \<^typ>\<open>bool\<close> here.
\<close>

record playback_status =
  isLoaded :: bool
  positionMillis :: "real option"
  status_isPlaying :: bool

text \<open>
  \<open>initializeVideo\<close> is an \<open>async\<close> function: it runs up to an \<open>await\<close>, and the rest
  runs when the awaited promise settles, with other handlers running in between. The
  phase records the \<open>await\<close> at which the one call in flight is suspended.
\<close>

datatype init_phase =
    NotStarted
  | AwaitReadyTimer
  | AwaitPause
  | AwaitSeek
  | AwaitSettleTimer
  | Finished
  | Failed

text \<open>
  The screen's \<open>useState\<close> cells (prefixed \<open>p_\<close>, the trim screen has cells of the same
  names), whether \<open>videoRef.current\<close> is attached, the ref
  \<open>initializationAttempted.current\<close>, and the phase of \<open>initializeVideo\<close>. The route
  parameters \<open>startTime\<close> and \<open>endTime\<close> are read from the \<^typ>\<open>player_route\<close>.
\<close>

record player_state =
  p_isPlaying :: bool
  p_currentTime :: real
  p_playbackSpeed :: real
  p_isLooping :: bool
  p_videoLoaded :: bool
  p_isInitialized :: bool
  p_videoStatus :: "playback_status option"
  p_videoRef :: bool
  p_initializationAttempted :: bool
  p_init :: init_phase

text \<open>
  The state after mounting: the \<open>useState\<close> initial values, and the first \<open>useEffect\<close>,
  which resets the one-shot flag. The \<open>Video\<close> element, and with it the ref, exists when
  \<open>videoUri\<close> is truthy.
\<close>

definition player_mount :: "player_route \<Rightarrow> player_state" where
  "player_mount route =
     \<lparr>p_isPlaying = False, p_currentTime = r_startTime route, p_playbackSpeed = 1,
      p_isLooping = True, p_videoLoaded = False, p_isInitialized = False,
      p_videoStatus = None, p_videoRef = truthy (r_videoUri route),
      p_initializationAttempted = False, p_init = NotStarted\<rparr>"

text \<open>The part of \<open>initializeVideo\<close> that runs in the caller's turn: the guard, the one-shot
  flag, and the start of the one-second timer.\<close>

definition initializeVideo :: "player_route \<Rightarrow> player_state \<Rightarrow> player_state \<times> ui_effect list" where
  "initializeVideo route s =
     (if \<not> p_videoRef s \<or> p_initializationAttempted s \<or> p_isInitialized s then (s, [])
      else (s\<lparr>p_initializationAttempted := True, p_init := AwaitReadyTimer\<rparr>, []))"

text \<open>What settles an \<open>await\<close> of \<open>initializeVideo\<close>: a timer fires, or a player command
  resolves (\<open>True\<close>) or rejects (\<open>False\<close>).\<close>

datatype settled = TimerFired | CommandSettled bool

definition init_failed :: "player_state \<Rightarrow> player_state \<times> ui_effect list" where
  "init_failed s =
     (s\<lparr>p_init := Failed\<rparr>, [ShowAlert ''Error'' ''Failed to initialize video playback''])"

definition init_finished :: "player_route \<Rightarrow> player_state \<Rightarrow> player_state \<times> ui_effect list" where
  "init_finished route s =
     (s\<lparr>p_currentTime := r_startTime route, p_isInitialized := True, p_videoLoaded := True,
        p_isPlaying := False, p_init := Finished\<rparr>, [])"

text \<open>
  The rest of \<open>initializeVideo\<close>, one \<open>await\<close> at a time. A call on a detached ref throws,
  and a rejected command throws; both land in the \<open>catch\<close>. A settlement that the
  suspended call is not waiting for does nothing.
\<close>

fun initializeVideo_resume ::
  "player_route \<Rightarrow> player_state \<Rightarrow> settled \<Rightarrow> player_state \<times> ui_effect list" where
  "initializeVideo_resume route s ev =
     (case (p_init s, ev) of
        (AwaitReadyTimer, TimerFired) \<Rightarrow>
          (if p_videoRef s then (s\<lparr>p_init := AwaitPause\<rparr>, [Player PauseAsync])
           else init_failed s)
      | (AwaitPause, CommandSettled True) \<Rightarrow>
          (if r_startTime route > 0
           then (if p_videoRef s
                 then (s\<lparr>p_init := AwaitSeek\<rparr>, [Player (SetPositionAsync (r_startTime route))])
                 else init_failed s)
           else init_finished route s)
      | (AwaitPause, CommandSettled False) \<Rightarrow> init_failed s
      | (AwaitSeek, CommandSettled True) \<Rightarrow> (s\<lparr>p_init := AwaitSettleTimer\<rparr>, [])
      | (AwaitSeek, CommandSettled False) \<Rightarrow> init_failed s
      | (AwaitSettleTimer, TimerFired) \<Rightarrow> init_finished route s
      | _ \<Rightarrow> (s, []))"

text \<open>
  \<open>handleVideoStatusUpdate\<close>. The \<open>set...\<close> calls of one handler run are batched, so of
  two writes to one cell the later one stands; \<open>videoRef.current?.\<close> skips the command on
  a detached ref.
\<close>

definition handleVideoStatusUpdate ::
  "player_route \<Rightarrow> player_state \<Rightarrow> playback_status \<Rightarrow> player_state \<times> ui_effect list" where
  "handleVideoStatusUpdate route s status =
     (if \<not> isLoaded status then (s, [])
      else if isLoaded status \<and> \<not> p_isInitialized s \<and> \<not> p_initializationAttempted s
      then initializeVideo route s
      else if p_isInitialized s then
        let positionMs = (case positionMillis status of None \<Rightarrow> 0 | Some p \<Rightarrow> p);
            s1 = s\<lparr>p_videoStatus := Some status, p_currentTime := positionMs,
                   p_isPlaying := status_isPlaying status\<rparr>;
            seekToStart = (if p_videoRef s then [Player (SetPositionAsync (r_startTime route))]
                           else []);
            (s2, c2) =
              (if positionMs \<ge> r_endTime route \<and> status_isPlaying status
               then (if p_isLooping s
                     then (s1\<lparr>p_currentTime := r_startTime route\<rparr>, seekToStart)
                     else (s1\<lparr>p_isPlaying := False\<rparr>,
                           if p_videoRef s then [Player PauseAsync] else []))
               else (s1, []));
            (s3, c3) =
              (if positionMs < r_startTime route \<and> status_isPlaying status
               then (s2\<lparr>p_currentTime := r_startTime route\<rparr>, seekToStart)
               else (s2, []))
        in (s3, c2 @ c3)
      else (s, []))"

text \<open>
  The screen as an event loop: a status notification runs \<open>handleVideoStatusUpdate\<close>, a
  settled promise resumes \<open>initializeVideo\<close>. Every effect is logged with the code that
  fired it, so that the commands of the initialization sequence and those of the
  steady-state rule can be told apart.
\<close>

datatype player_event = StatusUpdate playback_status | Settled settled

datatype origin = SteadyState | Initialization

fun player_step ::
  "player_route \<Rightarrow> player_state \<Rightarrow> player_event \<Rightarrow> player_state \<times> (origin \<times> ui_effect) list" where
  "player_step route s (StatusUpdate status) =
     (let (s', es) = handleVideoStatusUpdate route s status
      in (s', map (Pair SteadyState) es))"
| "player_step route s (Settled ev) =
     (let (s', es) = initializeVideo_resume route s ev
      in (s', map (Pair Initialization) es))"

fun player_run ::
  "player_route \<Rightarrow> player_state \<Rightarrow> player_event list \<Rightarrow> player_state \<times> (origin \<times> ui_effect) list" where
  "player_run route s [] = (s, [])"
| "player_run route s (e # es) =
     (let (s1, l1) = player_step route s e;
          (s2, l2) = player_run route s1 es
      in (s2, l1 @ l2))"

text \<open>The player commands in a log that one origin fired.\<close>

definition commands_of :: "origin \<Rightarrow> (origin \<times> ui_effect) list \<Rightarrow> player_cmd list" where
  "commands_of orig l = commands (map snd (filter (\<lambda>e. fst e = orig) l))"

text \<open>Feeding a list of notifications to \<open>handleVideoStatusUpdate\<close>: for each notification,
  the commands it caused and the locally recorded position after it.\<close>

fun feed ::
  "player_route \<Rightarrow> player_state \<Rightarrow> playback_status list \<Rightarrow> (player_cmd list \<times> real) list" where
  "feed route s [] = []"
| "feed route s (st # sts) =
     (let (s', es) = handleVideoStatusUpdate route s st
      in (commands es, p_currentTime s') # feed route s' sts)"

text \<open>A notification of a loaded player at a position, playing.\<close>

definition playing_at :: "real \<Rightarrow> playback_status" where
  "playing_at p = \<lparr>isLoaded = True, positionMillis = Some p, status_isPlaying = True\<rparr>"


section \<open>Auxiliary definitions for the properties\<close>

text \<open>
  The time the slider passes to \<open>onStartTimeChange\<close> when the start handle of a
  7000 ms video is dragged from 0 to pixel 44 of a 320 pixel track:
  \<open>(clampedPosition / SLIDER_WIDTH) * duration\<close> with both operations rounded.
\<close>

definition dragged_start :: real where
  "dragged_start = to_double (to_double (44 / 320) * 7000)"

text \<open>A loaded trim screen with the handles at the given times.\<close>

definition range_state :: "real \<Rightarrow> real \<Rightarrow> trimmer_state" where
  "range_state a b =
     \<lparr>startTime = a, endTime = b, currentTime = 0, isPlaying = False, isLoading = False,
      videoRef = True\<rparr>"

text \<open>
  The invariant of the initialization sequence: what the suspended call has commanded so
  far (\<open>cs\<close>), by the \<open>await\<close> it is suspended at.
\<close>

definition init_inv :: "player_route \<Rightarrow> player_state \<Rightarrow> player_cmd list \<Rightarrow> bool" where
  "init_inv route s cs =
     (case p_init s of
        NotStarted \<Rightarrow> cs = [] \<and> \<not> p_isInitialized s
      | AwaitReadyTimer \<Rightarrow> cs = [] \<and> \<not> p_isInitialized s \<and> p_initializationAttempted s
      | AwaitPause \<Rightarrow> cs = [PauseAsync] \<and> \<not> p_isInitialized s \<and> p_initializationAttempted s
      | AwaitSeek \<Rightarrow>
          cs = [PauseAsync, SetPositionAsync (r_startTime route)] \<and> r_startTime route > 0 \<and>
          \<not> p_isInitialized s \<and> p_initializationAttempted s
      | AwaitSettleTimer \<Rightarrow>
          cs = [PauseAsync, SetPositionAsync (r_startTime route)] \<and> r_startTime route > 0 \<and>
          \<not> p_isInitialized s \<and> p_initializationAttempted s
      | Finished \<Rightarrow>
          p_isInitialized s \<and>
          cs = PauseAsync #
               (if r_startTime route > 0 then [SetPositionAsync (r_startTime route)] else [])
      | Failed \<Rightarrow>
          \<not> p_isInitialized s \<and> p_initializationAttempted s \<and>
          (cs = [] \<or> cs = [PauseAsync] \<or>
           (cs = [PauseAsync, SetPositionAsync (r_startTime route)] \<and> r_startTime route > 0)))"

text \<open>
  A playback session for the range 2000 to 5000 of a ten-second video; the events of a
  video load whose initialization runs to its end (a first "loaded" notification, the
  one-second timer, the pause, the seek, the half-second timer); the state they lead to.
\<close>

definition demo_route :: player_route where
  "demo_route =
     \<lparr>r_videoUri = Some ''file:///clip.mp4'', r_startTime = 2000, r_endTime = 5000,
      r_originalDuration = 10000, r_trimmedDuration = 3000\<rparr>"

definition init_events :: "player_event list" where
  "init_events =
     [StatusUpdate (playing_at 0), Settled TimerFired, Settled (CommandSettled True),
      Settled (CommandSettled True), Settled TimerFired]"

definition ready_state :: player_state where
  "ready_state = fst (player_run demo_route (player_mount demo_route) init_events)"


section \<open>Properties of the trim screen\<close>

text \<open>The doubles that the traces below pass through.\<close>

lemmas double_eval =
  to_double_def binade_def pow2_def round_half_even_def eval_nat_numeral Let_def

lemma to_double_500: "to_double 500 = 500"
  by (simp add: double_eval)

lemma to_double_1000: "to_double 1000 = 1000"
  by (simp add: double_eval)

lemma to_double_6000: "to_double 6000 = 6000"
  by (simp add: double_eval)

lemma dragged_start_eq: "dragged_start = 962.5 + 1 / 2 ^ 43"
  unfolding dragged_start_def by (simp add: double_eval)

lemma trim_update_start_nonneg:
  "0 \<le> startTime s \<Longrightarrow> 0 \<le> startTime (apply_update d s u)"
  by (cases u) (simp_all add: handleStartTimeChange_def handleEndTimeChange_def Let_def)

lemma trim_run_start_nonneg:
  "0 \<le> startTime s \<Longrightarrow> 0 \<le> startTime (trim_run d s us)"
  by (induction us arbitrary: s) (simp_all add: trim_update_start_nonneg)

lemma trimmer_loaded_start: "startTime (trimmer_loaded uri d) = 0"
  by (simp add: trimmer_loaded_def trimmer_init_effect_def trimmer_mount_def Let_def)

text \<open>\<open>0 <= startTime\<close> holds in every state the setters reach from the loaded screen.\<close>

lemma reached_start_nonneg: "0 \<le> startTime (trim_run d (trimmer_loaded uri d) us)"
  by (rule trim_run_start_nonneg) (simp add: trimmer_loaded_start)

lemma loaded_7000:
  "trimmer_loaded (Some ''file:///clip.mp4'') 7000 =
     \<lparr>startTime = 0, endTime = 7000, currentTime = 0, isPlaying = False, isLoading = False,
      videoRef = True\<rparr>"
  by (simp add: trimmer_loaded_def trimmer_init_effect_def trimmer_mount_def truthy_def Let_def)

lemma after_start_drag:
  "trim_run 7000 (trimmer_loaded (Some ''file:///clip.mp4'') 7000) [StartTimeChange dragged_start] =
     \<lparr>startTime = 962.5 + 1 / 2 ^ 43, endTime = 7000, currentTime = 0, isPlaying = False,
      isLoading = False, videoRef = True\<rparr>"
  by (simp add: loaded_7000 handleStartTimeChange_def double_sub_def to_double_6000
      dragged_start_eq Let_def)

lemma after_end_drag:
  "trim_run 7000 (trimmer_loaded (Some ''file:///clip.mp4'') 7000)
     [StartTimeChange dragged_start, EndTimeChange 1618.75] =
     \<lparr>startTime = 962.5 + 1 / 2 ^ 43, endTime = 1962.5, currentTime = 0, isPlaying = False,
      isLoading = False, videoRef = True\<rparr>"
proof -
  have "trim_run 7000 (trimmer_loaded (Some ''file:///clip.mp4'') 7000)
          [StartTimeChange dragged_start, EndTimeChange 1618.75] =
        fst (handleEndTimeChange 7000
          (trim_run 7000 (trimmer_loaded (Some ''file:///clip.mp4'') 7000)
             [StartTimeChange dragged_start]) 1618.75)"
    by simp
  also have "\<dots> = \<lparr>startTime = 962.5 + 1 / 2 ^ 43, endTime = 1962.5, currentTime = 0,
      isPlaying = False, isLoading = False, videoRef = True\<rparr>"
    unfolding after_start_drag
    by (simp add: handleEndTimeChange_def double_add_def double_eval)
  finally show ?thesis .
qed

text \<open>
  C3 (gap invariant). The setters clamp with a rounded sum, and the rounding can lose the
  gap. A 7000 ms video is loaded on a 320 pixel track and the start handle is dragged to
  pixel 44: the slider sends \<open>(44 / 320) * 7000\<close>, which in doubles is
  \<open>962.5000000000001\<close> (\<open>962.5 + 2^(-43)\<close>), and the gap is 6037.5. The end handle is then
  dragged far to the left, a request of 1618.75: \<open>handleEndTimeChange\<close> takes
  \<open>startTime + 1000\<close>, a tie between two doubles that rounds down to \<open>1962.5\<close>. Now
  \<open>endTime - startTime\<close> is \<open>999.9999999999999\<close> (\<open>1000 - 2^(-43)\<close>), below 1000, and
  \<open>handleProceedToPlayer\<close> rejects the range the setters have produced.
\<close>

theorem gap_lost_to_rounding:
  "dragged_start = 962.5 + 1 / 2 ^ 43 \<and>
   double_sub
     (endTime (trim_run 7000 (trimmer_loaded (Some ''file:///clip.mp4'') 7000)
        [StartTimeChange dragged_start]))
     (startTime (trim_run 7000 (trimmer_loaded (Some ''file:///clip.mp4'') 7000)
        [StartTimeChange dragged_start])) = 6037.5 \<and>
   startTime (trim_run 7000 (trimmer_loaded (Some ''file:///clip.mp4'') 7000)
     [StartTimeChange dragged_start, EndTimeChange 1618.75]) = 962.5 + 1 / 2 ^ 43 \<and>
   endTime (trim_run 7000 (trimmer_loaded (Some ''file:///clip.mp4'') 7000)
     [StartTimeChange dragged_start, EndTimeChange 1618.75]) = 1962.5 \<and>
   double_sub
     (endTime (trim_run 7000 (trimmer_loaded (Some ''file:///clip.mp4'') 7000)
        [StartTimeChange dragged_start, EndTimeChange 1618.75]))
     (startTime (trim_run 7000 (trimmer_loaded (Some ''file:///clip.mp4'') 7000)
        [StartTimeChange dragged_start, EndTimeChange 1618.75])) = 1000 - 1 / 2 ^ 43 \<and>
   \<not> 1000 \<le> endTime (trim_run 7000 (trimmer_loaded (Some ''file:///clip.mp4'') 7000)
              [StartTimeChange dragged_start, EndTimeChange 1618.75])
            - startTime (trim_run 7000 (trimmer_loaded (Some ''file:///clip.mp4'') 7000)
              [StartTimeChange dragged_start, EndTimeChange 1618.75]) \<and>
   navigated (snd (handleProceedToPlayer (Some ''file:///clip.mp4'') 7000
     (trim_run 7000 (trimmer_loaded (Some ''file:///clip.mp4'') 7000)
        [StartTimeChange dragged_start, EndTimeChange 1618.75]))) = None"
  unfolding after_start_drag after_end_drag
  by (simp add: dragged_start_eq double_sub_def handleProceedToPlayer_def truthy_def
      double_eval)

text \<open>
  C4 (domain invariant). \<open>0 <= startTime\<close> holds after every update. \<open>endTime <= duration\<close>
  does not: \<open>handleEndTimeChange\<close> takes the larger of \<open>startTime + 1000\<close> and the capped
  request, so on a video shorter than one second the first call moves the end point to
  1000, past the end of the video. Here a 500 ms video is loaded and the end handle is
  asked for 400.
\<close>

theorem short_video_end_exceeds_duration:
  "endTime (trim_run 500 (trimmer_loaded (Some ''file:///clip.mp4'') 500) [EndTimeChange 400])
     = 1000
   \<and> \<not> endTime (trim_run 500 (trimmer_loaded (Some ''file:///clip.mp4'') 500) [EndTimeChange 400])
         \<le> 500"
  by (simp add: trimmer_loaded_def trimmer_init_effect_def trimmer_mount_def truthy_def
      handleEndTimeChange_def double_add_def to_double_1000 Let_def)

text \<open>
  C5 (stage validation). With a \<open>videoUri\<close>, as in every state in which the button that
  \<open>handleProceedToPlayer\<close> is bound to is rendered, the handler does not navigate exactly
  when \<open>startTime >= endTime\<close> or \<open>endTime - startTime < 1000\<close> (the difference as the code
  computes it); then it shows one alert and leaves the state as it was. Otherwise it
  shows no alert and navigates to the playback screen, carrying
  \<open>trimmedDuration = endTime - startTime\<close>. The range 5000 to 5500 is rejected and the
  range 5000 to 6000 is accepted.
\<close>

theorem proceed_validates_range:
  assumes "truthy videoUri"
  shows "((navigated (snd (handleProceedToPlayer videoUri d s)) = None)
            = (startTime s \<ge> endTime s \<or> double_sub (endTime s) (startTime s) < 1000)) \<and>
         (startTime s \<ge> endTime s \<or> double_sub (endTime s) (startTime s) < 1000 \<longrightarrow>
            length (alerts (snd (handleProceedToPlayer videoUri d s))) = 1 \<and>
            fst (handleProceedToPlayer videoUri d s) = s) \<and>
         (\<not> (startTime s \<ge> endTime s \<or> double_sub (endTime s) (startTime s) < 1000) \<longrightarrow>
            alerts (snd (handleProceedToPlayer videoUri d s)) = [] \<and>
            navigated (snd (handleProceedToPlayer videoUri d s)) =
              Some (''VideoPlayer'',
                    \<lparr>r_videoUri = videoUri, r_startTime = startTime s, r_endTime = endTime s,
                     r_originalDuration = d,
                     r_trimmedDuration = double_sub (endTime s) (startTime s)\<rparr>)) \<and>
         navigated (snd (handleProceedToPlayer videoUri d (s\<lparr>startTime := 5000, endTime := 5500\<rparr>)))
           = None \<and>
         navigated (snd (handleProceedToPlayer videoUri d (s\<lparr>startTime := 5000, endTime := 6000\<rparr>)))
           \<noteq> None"
  using assms
  by (auto simp: handleProceedToPlayer_def double_sub_def to_double_500 to_double_1000 Let_def)

theorem proceed_validates_range_witness:
  "truthy (Some ''file:///clip.mp4'') \<and>
   navigated (snd (handleProceedToPlayer (Some ''file:///clip.mp4'') 10000 (range_state 5000 6000)))
     = Some (''VideoPlayer'',
             \<lparr>r_videoUri = Some ''file:///clip.mp4'', r_startTime = 5000, r_endTime = 6000,
              r_originalDuration = 10000, r_trimmedDuration = 1000\<rparr>) \<and>
   alerts (snd (handleProceedToPlayer (Some ''file:///clip.mp4'') 10000 (range_state 5000 6000)))
     = [] \<and>
   navigated (snd (handleProceedToPlayer (Some ''file:///clip.mp4'') 10000
                     ((range_state 5000 6000)\<lparr>startTime := 5000, endTime := 5500\<rparr>)))
     = None"
proof -
  have h: "truthy (Some ''file:///clip.mp4'')" by (simp add: truthy_def)
  from proceed_validates_range [OF h, of 10000 "range_state 5000 6000"] h
  show ?thesis by (simp add: range_state_def double_sub_def to_double_1000)
qed

text \<open>Without a \<open>videoUri\<close> the handler has a branch of its own, which no rendered button
  reaches: it alerts and returns, whatever the range.\<close>

lemma proceed_without_video:
  "\<not> truthy videoUri \<Longrightarrow>
   handleProceedToPlayer videoUri d s = (s, [ShowAlert ''Error'' ''No video to trim''])"
  by (simp add: handleProceedToPlayer_def)

text \<open>
  C9 (the utility's validation). \<open>validateTimeRange\<close> is true exactly when
  \<open>startTime < endTime\<close>, \<open>startTime >= 0\<close> and \<open>endTime > 0\<close>. It has no minimum gap: it
  accepts the range 0 to 500, which the stage transition rejects.
\<close>

theorem validateTimeRange_no_gap:
  "validateTimeRange a b = (a < b \<and> a \<ge> 0 \<and> b > 0) \<and>
   validateTimeRange 0 500 \<and>
   navigated (snd (handleProceedToPlayer (Some ''file:///clip.mp4'') 10000 (range_state 0 500)))
     = None"
  by (simp add: validateTimeRange_def handleProceedToPlayer_def range_state_def truthy_def
      double_sub_def to_double_500 Let_def)

text \<open>
  C10 (initial range). When the trim screen is given a \<open>videoUri\<close> and a positive
  \<open>videoDuration\<close>, it loads (the loading flag is cleared) with the initial range
  \<open>startTime = 0\<close> and \<open>endTime = min(videoDuration, 30000)\<close>; and
  \<open>getSuggestedTrimPoints\<close> returns start 0 and end \<open>min(videoDuration, 30000)\<close> for every
  \<open>videoDuration\<close>.
\<close>

theorem initial_range_capped:
  "(truthy videoUri \<and> 0 < d \<longrightarrow>
      \<not> isLoading (trimmer_loaded videoUri d) \<and>
      startTime (trimmer_loaded videoUri d) = 0 \<and>
      endTime (trimmer_loaded videoUri d) = min d 30000) \<and>
   tp_startTime (getSuggestedTrimPoints vd) = 0 \<and>
   tp_endTime (getSuggestedTrimPoints vd) = min vd 30000"
  by (simp add: trimmer_loaded_def trimmer_init_effect_def trimmer_mount_def
      getSuggestedTrimPoints_def Let_def)

theorem initial_range_capped_witness:
  "truthy (Some ''file:///clip.mp4'') \<and> (0::real) < 10000 \<and> (0::real) < 45000 \<and>
   startTime (trimmer_loaded (Some ''file:///clip.mp4'') 10000) = 0 \<and>
   endTime (trimmer_loaded (Some ''file:///clip.mp4'') 10000) = 10000 \<and>
   startTime (trimmer_loaded (Some ''file:///clip.mp4'') 45000) = 0 \<and>
   endTime (trimmer_loaded (Some ''file:///clip.mp4'') 45000) = 30000 \<and>
   tp_endTime (getSuggestedTrimPoints 10000) = 10000 \<and>
   tp_endTime (getSuggestedTrimPoints 45000) = 30000"
proof -
  have h: "truthy (Some ''file:///clip.mp4'')" by (simp add: truthy_def)
  from initial_range_capped [of "Some ''file:///clip.mp4''" 10000 10000]
    initial_range_capped [of "Some ''file:///clip.mp4''" 45000 45000] h
  show ?thesis by simp
qed


section \<open>Properties of the playback screen\<close>

lemma commands_append: "commands (xs @ ys) = commands xs @ commands ys"
  by (induction xs rule: commands.induct) simp_all

lemma commands_of_steady: "commands_of Initialization (map (Pair SteadyState) es) = []"
  by (simp add: commands_of_def)

lemma commands_of_init: "commands_of Initialization (map (Pair Initialization) es) = commands es"
  by (simp add: commands_of_def o_def)

lemma commands_of_append:
  "commands_of orig (l1 @ l2) = commands_of orig l1 @ commands_of orig l2"
  by (simp add: commands_of_def commands_append)

lemma ready_state_eq:
  "ready_state =
     \<lparr>p_isPlaying = False, p_currentTime = 2000, p_playbackSpeed = 1, p_isLooping = True,
      p_videoLoaded = True, p_isInitialized = True, p_videoStatus = None, p_videoRef = True,
      p_initializationAttempted = True, p_init = Finished\<rparr>"
  by (simp add: ready_state_def init_events_def demo_route_def player_mount_def truthy_def
      playing_at_def handleVideoStatusUpdate_def initializeVideo_def init_finished_def Let_def)

text \<open>
  C1 (loop trace). With the range 2000 to 5000, looping on and initialization complete,
  the notifications 1000, 3000, 5000, 5200 (each playing) cause, in order: a seek to 2000
  (start boundary), nothing, a seek to 2000 (end boundary), and again a seek to 2000:
  5200 is at or past the end like 5000, and the rule has no memory of the seek it has
  just commanded. The recorded position is 2000 after each boundary hit and 3000 after
  the notification inside the range.
\<close>

theorem loop_trace:
  assumes "p_isInitialized s" and "p_isLooping s" and "p_videoRef s"
    and "r_startTime route = 2000" and "r_endTime route = 5000"
  shows "feed route s [playing_at 1000, playing_at 3000, playing_at 5000, playing_at 5200]
           = [([SetPositionAsync 2000], 2000), ([], 3000), ([SetPositionAsync 2000], 2000),
              ([SetPositionAsync 2000], 2000)]"
  using assms by (simp add: handleVideoStatusUpdate_def Let_def playing_at_def)

theorem loop_trace_witness:
  "p_isInitialized ready_state \<and> p_isLooping ready_state \<and> p_videoRef ready_state \<and>
   r_startTime demo_route = 2000 \<and> r_endTime demo_route = 5000 \<and>
   feed demo_route ready_state [playing_at 1000, playing_at 3000, playing_at 5000, playing_at 5200]
     = [([SetPositionAsync 2000], 2000), ([], 3000), ([SetPositionAsync 2000], 2000),
        ([SetPositionAsync 2000], 2000)]"
proof -
  have h: "p_isInitialized ready_state" "p_isLooping ready_state" "p_videoRef ready_state"
    by (simp_all add: ready_state_eq)
  have r: "r_startTime demo_route = 2000" "r_endTime demo_route = 5000"
    by (simp_all add: demo_route_def)
  from loop_trace [OF h r] h r show ?thesis by simp
qed

text \<open>The claim as it was stated has no command for 5200; the screen commands a seek.\<close>

theorem loop_trace_counterexample:
  "map fst (feed demo_route ready_state
              [playing_at 1000, playing_at 3000, playing_at 5000, playing_at 5200])
     \<noteq> [[SetPositionAsync 2000], [], [SetPositionAsync 2000], []]"
  by (simp add: ready_state_eq demo_route_def handleVideoStatusUpdate_def Let_def playing_at_def)

text \<open>The invariant of the initialization sequence holds at mounting and after every event.\<close>

lemma status_keeps_inv:
  "init_inv route s cs \<Longrightarrow> init_inv route (fst (handleVideoStatusUpdate route s status)) cs"
  by (auto simp: init_inv_def handleVideoStatusUpdate_def initializeVideo_def Let_def
      split: init_phase.splits if_splits)

lemma resume_keeps_inv:
  "init_inv route s cs \<Longrightarrow>
   init_inv route (fst (initializeVideo_resume route s ev))
     (cs @ commands (snd (initializeVideo_resume route s ev)))"
  by (cases ev; cases "p_init s")
     (auto simp: init_inv_def init_failed_def init_finished_def split: if_splits bool.splits)

lemma step_keeps_inv:
  assumes "init_inv route s cs"
  shows "init_inv route (fst (player_step route s e))
           (cs @ commands_of Initialization (snd (player_step route s e)))"
proof (cases e)
  case (StatusUpdate status)
  with status_keeps_inv [OF assms, of status] show ?thesis
    by (simp add: case_prod_unfold Let_def commands_of_steady)
next
  case (Settled ev)
  with resume_keeps_inv [OF assms, of ev] show ?thesis
    by (simp add: case_prod_unfold Let_def commands_of_init)
qed

lemma run_keeps_inv:
  "init_inv route s cs \<Longrightarrow>
   init_inv route (fst (player_run route s es))
     (cs @ commands_of Initialization (snd (player_run route s es)))"
proof (induction es arbitrary: s cs)
  case Nil
  then show ?case by (simp add: commands_of_def)
next
  case (Cons e es)
  from Cons.IH [OF step_keeps_inv [OF Cons.prems, of e]]
  show ?case by (simp add: case_prod_unfold Let_def commands_of_append)
qed

lemma mount_inv: "init_inv route (player_mount route) []"
  by (simp add: init_inv_def player_mount_def)

lemma gating: "\<not> p_isInitialized s \<Longrightarrow> snd (handleVideoStatusUpdate route s status) = []"
  by (simp add: handleVideoStatusUpdate_def initializeVideo_def)

text \<open>
  C2 (initialization gating). While \<open>isInitialized\<close> is false a notification makes
  \<open>handleVideoStatusUpdate\<close> fire nothing at all. And in every run of a video load,
  whatever notifications arrive and however they interleave with the timers and command
  completions the initialization sequence waits for, that sequence commands nothing, or
  one pause, or one pause and then one seek to \<open>startTime\<close>, the seek only when
  \<open>startTime > 0\<close>; once \<open>isInitialized\<close> is set it has commanded exactly one pause,
  followed by exactly one seek to \<open>startTime\<close> when \<open>startTime > 0\<close> and by no seek
  otherwise (the seek stands under \<open>if (startTime > 0)\<close>).
\<close>

theorem init_once:
  "(\<not> p_isInitialized s \<longrightarrow> snd (handleVideoStatusUpdate route s status) = []) \<and>
   (let (s', l) = player_run route (player_mount route) evs;
        cs = commands_of Initialization l
    in (cs = [] \<or> cs = [PauseAsync] \<or>
        (cs = [PauseAsync, SetPositionAsync (r_startTime route)] \<and> r_startTime route > 0)) \<and>
       (p_isInitialized s' \<longrightarrow>
          cs = PauseAsync #
               (if r_startTime route > 0 then [SetPositionAsync (r_startTime route)] else [])))"
proof -
  have "init_inv route (fst (player_run route (player_mount route) evs))
     (commands_of Initialization (snd (player_run route (player_mount route) evs)))"
    using run_keeps_inv [OF mount_inv, of route evs] by simp
  then show ?thesis
    by (auto simp: gating init_inv_def case_prod_unfold Let_def split: init_phase.splits if_splits)
qed

lemma demo_run_eq:
  "player_run demo_route (player_mount demo_route)
     (init_events @ [StatusUpdate (playing_at 0), StatusUpdate (playing_at 0)])
   = (ready_state\<lparr>p_videoStatus := Some (playing_at 0), p_isPlaying := True\<rparr>,
      [(Initialization, Player PauseAsync), (Initialization, Player (SetPositionAsync 2000)),
       (SteadyState, Player (SetPositionAsync 2000)), (SteadyState, Player (SetPositionAsync 2000))])"
  by (simp add: ready_state_eq init_events_def demo_route_def player_mount_def truthy_def
      playing_at_def handleVideoStatusUpdate_def initializeVideo_def init_finished_def Let_def)

theorem init_once_witness:
  "\<not> p_isInitialized (player_mount demo_route) \<and>
   snd (handleVideoStatusUpdate demo_route (player_mount demo_route) (playing_at 0)) = [] \<and>
   p_isInitialized (fst (player_run demo_route (player_mount demo_route)
      (init_events @ [StatusUpdate (playing_at 0), StatusUpdate (playing_at 0)]))) \<and>
   commands_of Initialization (snd (player_run demo_route (player_mount demo_route)
      (init_events @ [StatusUpdate (playing_at 0), StatusUpdate (playing_at 0)])))
     = [PauseAsync, SetPositionAsync 2000]"
proof -
  have h: "\<not> p_isInitialized (player_mount demo_route)"
    by (simp add: player_mount_def)
  have g: "p_isInitialized (fst (player_run demo_route (player_mount demo_route)
      (init_events @ [StatusUpdate (playing_at 0), StatusUpdate (playing_at 0)])))"
    by (simp add: demo_run_eq ready_state_eq)
  have r: "r_startTime demo_route = 2000" by (simp add: demo_route_def)
  from init_once [of "player_mount demo_route" demo_route "playing_at 0"
      "init_events @ [StatusUpdate (playing_at 0), StatusUpdate (playing_at 0)]"] h g r
  show ?thesis by (simp add: case_prod_unfold Let_def)
qed

text \<open>The claim as it was stated promises one seek for \<open>startTime = 0\<close> too. A load with
  \<open>startTime = 0\<close> completes after the pause, and no seek has been commanded.\<close>

theorem init_once_counterexample:
  "p_isInitialized (fst (player_run (demo_route\<lparr>r_startTime := 0\<rparr>)
      (player_mount (demo_route\<lparr>r_startTime := 0\<rparr>))
      [StatusUpdate (playing_at 0), StatusUpdate (playing_at 0), Settled TimerFired,
       Settled (CommandSettled True), StatusUpdate (playing_at 40)])) \<and>
   commands_of Initialization (snd (player_run (demo_route\<lparr>r_startTime := 0\<rparr>)
      (player_mount (demo_route\<lparr>r_startTime := 0\<rparr>))
      [StatusUpdate (playing_at 0), StatusUpdate (playing_at 0), Settled TimerFired,
       Settled (CommandSettled True), StatusUpdate (playing_at 40)]))
     = [PauseAsync]"
  by (simp add: demo_route_def player_mount_def truthy_def commands_of_def
      playing_at_def handleVideoStatusUpdate_def initializeVideo_def init_finished_def Let_def)

text \<open>
  C8 (idempotence). In an initialized state, applying \<open>handleVideoStatusUpdate\<close> a second
  time with the same notification gives the same state and the same commands as the first
  application: the rule reads the notification, the route, the loop flag and the ref, and
  writes none of them. One application commands at most once per boundary rule: at most
  twice, and at most once when \<open>startTime <= endTime\<close>, so the repetition adds at most one
  redundant seek per boundary.
\<close>

theorem status_update_idempotent:
  assumes "p_isInitialized s"
  shows "handleVideoStatusUpdate route (fst (handleVideoStatusUpdate route s status)) status
           = handleVideoStatusUpdate route s status \<and>
         length (commands (snd (handleVideoStatusUpdate route s status))) \<le> 2 \<and>
         (r_startTime route \<le> r_endTime route \<longrightarrow>
            length (commands (snd (handleVideoStatusUpdate route s status))) \<le> 1)"
  using assms by (simp add: handleVideoStatusUpdate_def Let_def)

theorem status_update_idempotent_witness:
  "p_isInitialized ready_state \<and> r_startTime demo_route \<le> r_endTime demo_route \<and>
   handleVideoStatusUpdate demo_route
       (fst (handleVideoStatusUpdate demo_route ready_state (playing_at 5200))) (playing_at 5200)
     = handleVideoStatusUpdate demo_route ready_state (playing_at 5200) \<and>
   commands (snd (handleVideoStatusUpdate demo_route ready_state (playing_at 5200)))
     = [SetPositionAsync 2000]"
proof -
  have h: "p_isInitialized ready_state" by (simp add: ready_state_eq)
  have r: "r_startTime demo_route \<le> r_endTime demo_route" by (simp add: demo_route_def)
  have c: "commands (snd (handleVideoStatusUpdate demo_route ready_state (playing_at 5200)))
     = [SetPositionAsync 2000]"
    by (simp add: ready_state_eq demo_route_def handleVideoStatusUpdate_def Let_def playing_at_def)
  from status_update_idempotent [OF h, of demo_route "playing_at 5200"] h r c
  show ?thesis by simp
qed


section \<open>Properties of the range slider widget\<close>

lemma slider_width_finite: "SLIDER_WIDTH (Num sw) = Num (sw - 40)"
  by (simp add: SLIDER_WIDTH_def js_sub_def)

lemma roundtrip_exact:
  assumes "w \<noteq> 0" and "d \<noteq> 0"
  shows "positionToTime (Num w) (Num d) (js_mul (js_div (Num t) (Num d)) (Num w)) = Num t"
  using assms by (simp add: positionToTime_def)

text \<open>
  C7 (round trip). On a track of positive width (a window wider than 40), for every
  \<open>duration > 0\<close> and every time \<open>t\<close> from 0 to \<open>duration\<close>, the pixel position of \<open>t\<close>
  converted back to a time is a finite number within \<open>duration / SLIDER_WIDTH\<close> of \<open>t\<close>;
  the same holds for the three positions the widget computes, which share the formula.
  (Without rounding, as here, the time recovered is \<open>t\<close> itself.)
\<close>

theorem pixel_time_roundtrip:
  assumes "40 < sw" and "0 < d" and "0 \<le> t" and "t \<le> d"
  shows "\<exists>r tol. js_div (Num d) (SLIDER_WIDTH (Num sw)) = Num tol \<and>
           positionToTime (SLIDER_WIDTH (Num sw)) (Num d)
             (startPosition (SLIDER_WIDTH (Num sw)) (Num d) (Num t)) = Num r \<and>
           positionToTime (SLIDER_WIDTH (Num sw)) (Num d)
             (endPosition (SLIDER_WIDTH (Num sw)) (Num d) (Num t)) = Num r \<and>
           positionToTime (SLIDER_WIDTH (Num sw)) (Num d)
             (currentPosition (SLIDER_WIDTH (Num sw)) (Num d) (Num t)) = Num r \<and>
           \<bar>r - t\<bar> \<le> tol"
proof -
  have w: "sw - 40 \<noteq> 0" and d: "d \<noteq> 0" using assms by simp_all
  have tol: "js_div (Num d) (SLIDER_WIDTH (Num sw)) = Num (d / (sw - 40))"
    using w by (simp add: slider_width_finite)
  have rt: "positionToTime (SLIDER_WIDTH (Num sw)) (Num d)
                (js_mul (js_div (Num t) (Num d)) (SLIDER_WIDTH (Num sw))) = Num t"
    unfolding slider_width_finite by (rule roundtrip_exact [OF w d])
  have "\<bar>t - t\<bar> \<le> d / (sw - 40)" using assms by simp
  with tol rt show ?thesis
    unfolding startPosition_def endPosition_def currentPosition_def by blast
qed

theorem pixel_time_roundtrip_witness:
  "(40::real) < 360 \<and> (0::real) < 10000 \<and> (0::real) \<le> 2500 \<and> (2500::real) \<le> 10000 \<and>
   (\<exists>r tol. js_div (Num 10000) (SLIDER_WIDTH (Num 360)) = Num tol \<and>
      positionToTime (SLIDER_WIDTH (Num 360)) (Num 10000)
        (startPosition (SLIDER_WIDTH (Num 360)) (Num 10000) (Num 2500)) = Num r \<and>
      positionToTime (SLIDER_WIDTH (Num 360)) (Num 10000)
        (endPosition (SLIDER_WIDTH (Num 360)) (Num 10000) (Num 2500)) = Num r \<and>
      positionToTime (SLIDER_WIDTH (Num 360)) (Num 10000)
        (currentPosition (SLIDER_WIDTH (Num 360)) (Num 10000) (Num 2500)) = Num r \<and>
      \<bar>r - 2500\<bar> \<le> tol)"
proof -
  have h: "(40::real) < 360" "(0::real) < 10000" "(0::real) \<le> 2500" "(2500::real) \<le> 10000"
    by simp_all
  from pixel_time_roundtrip [OF h] h show ?thesis by blast
qed

text \<open>
  C6 (degenerate duration). The claim as it was stated fails at \<open>duration = 0\<close>, where the
  trim screen passes the times 0: the three positions are \<open>NaN\<close>, both responders still
  claim the gesture, and a move still invokes the callback.
\<close>

theorem zero_duration_counterexample:
  "startPosition (SLIDER_WIDTH (Num 360)) (Num 0) (Num 0) = NaN \<and>
   endPosition (SLIDER_WIDTH (Num 360)) (Num 0) (Num 0) = NaN \<and>
   currentPosition (SLIDER_WIDTH (Num 360)) (Num 0) (Num 0) = NaN \<and>
   onStartShouldSetPanResponder (Num 0) True \<and>
   onMoveShouldSetPanResponder (Num 0) True \<and>
   onPanResponderMove (SLIDER_WIDTH (Num 360)) (Num 0) (Num 0) (Num 0) True (Num 12)
     = OnStartTimeChange NaN"
  by (simp add: startPosition_def endPosition_def currentPosition_def SLIDER_WIDTH_def js_sub_def
      onStartShouldSetPanResponder_def onMoveShouldSetPanResponder_def onPanResponderMove_def
      positionToTime_def js_max_def js_min_def Let_def)

text \<open>
  C6 as amended. At \<open>duration = 0\<close> the widget is not disabled, and has no disabled state:
  for either handle both responders claim the gesture, and every move invokes the
  handle's callback. The positions of the seven time markers do not involve \<open>duration\<close>:
  on a finite track they are the finite numbers \<open>i / 6 * SLIDER_WIDTH\<close>, and every marker
  is labelled with the time 0.
\<close>

theorem zero_duration_not_disabled:
  "onStartShouldSetPanResponder (Num 0) isStart \<and>
   onMoveShouldSetPanResponder (Num 0) isStart \<and>
   (\<exists>t. onPanResponderMove W (Num 0) st en isStart dx
           = (if isStart then OnStartTimeChange t else OnEndTimeChange t)) \<and>
   renderTimeMarkers (Num w) (Num 0) = map (\<lambda>i. (Num (real i / 6 * w), Num 0)) [0 ..< 7]"
  by (simp add: onStartShouldSetPanResponder_def onMoveShouldSetPanResponder_def
      onPanResponderMove_def renderTimeMarkers_def Let_def)

end
